theory Spec2Isabelle
  imports Complex_Main
begin

section \<open>Task-space pose cost term (TermTaskspacePose.hpp)\<close>

text \<open>
  The C++ class \<^verbatim>\<open>TermTaskspacePose<KINEMATICS, FB, STATE_DIM, CONTROL_DIM>\<close> is embedded
  here. Scalars (\<^verbatim>\<open>double\<close> and the values carried by \<^verbatim>\<open>ct::core::ADCGScalar\<close>) are
  idealised as the real numbers: rounding is not modelled. Fixed-size Eigen objects
  are datatypes with one field per coefficient, so every operation below is the
  coefficient-wise formula Eigen computes.
\<close>

subsection \<open>Fixed-size vectors and matrices\<close>

datatype vec3 = Vec3 (v0: real) (v1: real) (v2: real)

datatype mat3 = Mat3
  (m00: real) (m01: real) (m02: real)
  (m10: real) (m11: real) (m12: real)
  (m20: real) (m21: real) (m22: real)

text \<open>Coefficient access by index, as Eigen's \<^verbatim>\<open>v(i)\<close> and \<^verbatim>\<open>M(i,j)\<close>.\<close>

fun vec_at :: "vec3 \<Rightarrow> nat \<Rightarrow> real" where
  "vec_at (Vec3 a b c) i = (if i = 0 then a else if i = 1 then b else c)"

fun mat_at :: "mat3 \<Rightarrow> nat \<Rightarrow> nat \<Rightarrow> real" where
  "mat_at (Mat3 a b c d e f g h k) i j =
     (if i = 0 then (if j = 0 then a else if j = 1 then b else c)
      else if i = 1 then (if j = 0 then d else if j = 1 then e else f)
      else (if j = 0 then g else if j = 1 then h else k))"

fun vec_sub :: "vec3 \<Rightarrow> vec3 \<Rightarrow> vec3" where
  "vec_sub (Vec3 a b c) (Vec3 a' b' c') = Vec3 (a - a') (b - b') (c - c')"

fun vec_scale :: "real \<Rightarrow> vec3 \<Rightarrow> vec3" where
  "vec_scale s (Vec3 a b c) = Vec3 (s * a) (s * b) (s * c)"

fun dot :: "vec3 \<Rightarrow> vec3 \<Rightarrow> real" where
  "dot (Vec3 a b c) (Vec3 a' b' c') = a * a' + b * b' + c * c'"

definition Identity :: mat3 where
  "Identity = Mat3 1 0 0  0 1 0  0 0 1"

fun transpose :: "mat3 \<Rightarrow> mat3" where
  "transpose (Mat3 a b c d e f g h k) = Mat3 a d g  b e h  c f k"

fun mat_sub :: "mat3 \<Rightarrow> mat3 \<Rightarrow> mat3" where
  "mat_sub (Mat3 a b c d e f g h k) (Mat3 a' b' c' d' e' f' g' h' k') =
     Mat3 (a - a') (b - b') (c - c') (d - d') (e - e') (f - f') (g - g') (h - h') (k - k')"

fun mat_scale :: "real \<Rightarrow> mat3 \<Rightarrow> mat3" where
  "mat_scale s (Mat3 a b c d e f g h k) =
     Mat3 (s * a) (s * b) (s * c) (s * d) (s * e) (s * f) (s * g) (s * h) (s * k)"

fun mat_mul :: "mat3 \<Rightarrow> mat3 \<Rightarrow> mat3" where
  "mat_mul (Mat3 a b c d e f g h k) (Mat3 a' b' c' d' e' f' g' h' k') =
     Mat3 (a * a' + b * d' + c * g') (a * b' + b * e' + c * h') (a * c' + b * f' + c * k')
          (d * a' + e * d' + f * g') (d * b' + e * e' + f * h') (d * c' + e * f' + f * k')
          (g * a' + h * d' + k * g') (g * b' + h * e' + k * h') (g * c' + h * f' + k * k')"

text \<open>A transposed vector times a matrix: the row vector \<^verbatim>\<open>x.transpose() * M\<close>.\<close>

fun rowvec_mul :: "vec3 \<Rightarrow> mat3 \<Rightarrow> vec3" where
  "rowvec_mul (Vec3 x y z) (Mat3 a b c d e f g h k) =
     Vec3 (x * a + y * d + z * g) (x * b + y * e + z * h) (x * c + y * f + z * k)"

text \<open>Eigen's \<^verbatim>\<open>norm()\<close> on a matrix: the Frobenius norm.\<close>

fun norm_mat :: "mat3 \<Rightarrow> real" where
  "norm_mat (Mat3 a b c d e f g h k) =
     sqrt (a * a + b * b + c * c + d * d + e * e + f * f + g * g + h * h + k * k)"

subsection \<open>Quaternions and angle-axis rotations (Eigen)\<close>

datatype Quaternion = Quaternion (qw: real) (qx: real) (qy: real) (qz: real)

fun squaredNorm :: "Quaternion \<Rightarrow> real" where
  "squaredNorm (Quaternion w x y z) = w * w + x * x + y * y + z * z"

text \<open>
  \<^verbatim>\<open>normalized()\<close>: the coefficients divided by the norm; a quaternion of squared norm
  zero is returned unchanged.
\<close>

definition normalized :: "Quaternion \<Rightarrow> Quaternion" where
  "normalized q =
     (let n2 = squaredNorm q in
      if n2 > 0
      then Quaternion (qw q / sqrt n2) (qx q / sqrt n2) (qy q / sqrt n2) (qz q / sqrt n2)
      else q)"

text \<open>\<^verbatim>\<open>toRotationMatrix()\<close>: no normalisation takes place inside.\<close>

fun toRotationMatrix :: "Quaternion \<Rightarrow> mat3" where
  "toRotationMatrix (Quaternion w x y z) =
     (let tx = 2 * x; ty = 2 * y; tz = 2 * z;
          twx = tx * w; twy = ty * w; twz = tz * w;
          txx = tx * x; txy = ty * x; txz = tz * x;
          tyy = ty * y; tyz = tz * y; tzz = tz * z
      in Mat3 (1 - (tyy + tzz)) (txy - twz) (txz + twy)
              (txy + twz) (1 - (txx + tzz)) (tyz - twx)
              (txz - twy) (tyz + twx) (1 - (txx + tyy)))"

text \<open>The quaternion product \<^verbatim>\<open>a * b\<close>.\<close>

fun quat_mul :: "Quaternion \<Rightarrow> Quaternion \<Rightarrow> Quaternion" where
  "quat_mul (Quaternion aw ax ay az) (Quaternion bw bx by bz) =
     Quaternion (aw * bw - ax * bx - ay * by - az * bz)
                (aw * bx + ax * bw + ay * bz - az * by)
                (aw * by + ay * bw + az * bx - ax * bz)
                (aw * bz + az * bw + ax * by - ay * bx)"

text \<open>
  \<^verbatim>\<open>Quaternion(AngleAxisd(angle, axis))\<close>: \<open>w = cos (angle / 2)\<close> and the vector part is
  \<open>sin (angle / 2)\<close> times the axis. A product of \<^verbatim>\<open>AngleAxisd\<close> values is the product of
  these quaternions.
\<close>

fun AngleAxis :: "real \<Rightarrow> vec3 \<Rightarrow> Quaternion" where
  "AngleAxis angle (Vec3 ax ay az) =
     Quaternion (cos (angle / 2)) (sin (angle / 2) * ax) (sin (angle / 2) * ay) (sin (angle / 2) * az)"

definition UnitX :: vec3 where "UnitX = Vec3 1 0 0"
definition UnitY :: vec3 where "UnitY = Vec3 0 1 0"
definition UnitZ :: vec3 where "UnitZ = Vec3 0 0 1"

text \<open>The orientation both Euler-angle paths build (constructor and configuration file).\<close>

definition quat_of_eulerXyz :: "vec3 \<Rightarrow> Quaternion" where
  "quat_of_eulerXyz eulerXyz =
     quat_mul (quat_mul (AngleAxis (vec_at eulerXyz 0) UnitX) (AngleAxis (vec_at eulerXyz 1) UnitY))
              (AngleAxis (vec_at eulerXyz 2) UnitZ)"

subsection \<open>Robot state and kinematics (collaborators of the term)\<close>

text \<open>
  Modelled from the spec: \<^verbatim>\<open>tpl::RBDState\<close> (ct/rbd/state/RBDState.h) is not part of the
  sources at hand. The spec lays a floating-base state out as base pose (6 values in
  Euler-XYZ encoding), then joint positions, then velocities, and a fixed-base state as
  joint positions, then joint velocities. The base pose is kept as the entries that
  encode it; a default-constructed pose is a value of its own.
\<close>

datatype RigidBodyPose = RigidBodyPose_default | RigidBodyPose_EulerXyz "real list"

record RBDState =
  basePose :: RigidBodyPose
  joints :: "real list"

text \<open>
  Modelled from the spec: \<^verbatim>\<open>fromStateVectorEulerXyz\<close> decodes the leading 6 entries as the
  base pose; what follows is the joint state, positions first.
\<close>

definition fromStateVectorEulerXyz :: "real list \<Rightarrow> RBDState" where
  "fromStateVectorEulerXyz x = \<lparr>basePose = RigidBodyPose_EulerXyz (take 6 x), joints = drop 6 x\<rparr>"

text \<open>
  Modelled from the spec: \<^verbatim>\<open>jointPositions()\<close> is the leading \<^verbatim>\<open>NJOINTS\<close> entries of the
  joint state.
\<close>

definition jointPositions :: "nat \<Rightarrow> RBDState \<Rightarrow> real list" where
  "jointPositions njoints s = take njoints (joints s)"

text \<open>
  The template parameter \<^verbatim>\<open>KINEMATICS\<close>: the number of joints and the two queries the
  term makes, for an end-effector index, a base pose and joint positions.
\<close>

record KINEMATICS =
  NJOINTS :: nat
  getEEPositionInWorld :: "nat \<Rightarrow> RigidBodyPose \<Rightarrow> real list \<Rightarrow> vec3"
  getEERotInWorld :: "nat \<Rightarrow> RigidBodyPose \<Rightarrow> real list \<Rightarrow> mat3"

subsection \<open>The term: members, constructors, clone\<close>

record TermTaskspacePose =
  eeInd :: nat
  kinematics :: KINEMATICS
  Q_pos :: mat3
  Q_rot :: real
  w_p_ref :: vec3
  w_R_ref :: mat3

text \<open>
  The \<^verbatim>\<open>static_assert\<close> of the quaternion constructor on the template parameters
  (\<^verbatim>\<open>FB * 6\<close> is 6 for a floating base and 0 otherwise).
\<close>

definition STATE_DIM_appropriate :: "KINEMATICS \<Rightarrow> bool \<Rightarrow> nat \<Rightarrow> bool" where
  "STATE_DIM_appropriate KIN FB STATE_DIM \<longleftrightarrow>
     STATE_DIM = 2 * ((if FB then 1 else 0) * 6 + NJOINTS KIN) \<or>
     STATE_DIM = 2 * ((if FB then 1 else 0) * 6 + NJOINTS KIN) + 1"

text \<open>
  Constructor using a quaternion. The member \<^verbatim>\<open>kinematics_\<close> is default-constructed;
  \<open>KIN\<close> stands for \<^verbatim>\<open>KINEMATICS()\<close>.
\<close>

definition TermTaskspacePose_quat ::
  "KINEMATICS \<Rightarrow> nat \<Rightarrow> mat3 \<Rightarrow> real \<Rightarrow> vec3 \<Rightarrow> Quaternion \<Rightarrow> TermTaskspacePose" where
  "TermTaskspacePose_quat KIN eeInd' Qpos Qrot w_pos_des w_q_des =
     \<lparr>eeInd = eeInd', kinematics = KIN, Q_pos = Qpos, Q_rot = Qrot, w_p_ref = w_pos_des,
      w_R_ref = toRotationMatrix (normalized w_q_des)\<rparr>"

text \<open>Constructor using Euler angles: it delegates to the quaternion constructor.\<close>

definition TermTaskspacePose_euler ::
  "KINEMATICS \<Rightarrow> nat \<Rightarrow> mat3 \<Rightarrow> real \<Rightarrow> vec3 \<Rightarrow> vec3 \<Rightarrow> TermTaskspacePose" where
  "TermTaskspacePose_euler KIN eeInd' Qpos Qrot w_pos_des eulerXyz =
     TermTaskspacePose_quat KIN eeInd' Qpos Qrot w_pos_des (quat_of_eulerXyz eulerXyz)"

text \<open>Copy constructor and \<^verbatim>\<open>clone()\<close>.\<close>

definition TermTaskspacePose_copy :: "KINEMATICS \<Rightarrow> TermTaskspacePose \<Rightarrow> TermTaskspacePose" where
  "TermTaskspacePose_copy KIN arg =
     \<lparr>eeInd = eeInd arg, kinematics = KIN, Q_pos = Q_pos arg, Q_rot = Q_rot arg,
      w_p_ref = w_p_ref arg, w_R_ref = w_R_ref arg\<rparr>"

definition clone :: "KINEMATICS \<Rightarrow> TermTaskspacePose \<Rightarrow> TermTaskspacePose" where
  "clone KIN this = TermTaskspacePose_copy KIN this"

subsection \<open>Evaluation\<close>

text \<open>The two overloads of \<^verbatim>\<open>setStateFromVector<FB>\<close>, selected by the template parameter.\<close>

definition setStateFromVector :: "bool \<Rightarrow> real list \<Rightarrow> RBDState" where
  "setStateFromVector FB x =
     (if FB then fromStateVectorEulerXyz x
      else \<lparr>basePose = RigidBodyPose_default, joints = x\<rparr>)"

text \<open>
  The body of \<^verbatim>\<open>evalLocal\<close>. Its locals \<^verbatim>\<open>pos_cost\<close> and \<^verbatim>\<open>rot_cost\<close> are given as
  functions of what they are computed from: the members and \<^verbatim>\<open>xDiff\<close>, the members and
  \<^verbatim>\<open>ee_rot\<close>. The product \<^verbatim>\<open>xDiff.transpose() * Q_pos_ * xDiff\<close> associates to the left.
\<close>

definition pos_cost :: "TermTaskspacePose \<Rightarrow> vec3 \<Rightarrow> real" where
  "pos_cost this xDiff = dot (rowvec_mul xDiff (Q_pos this)) xDiff"

definition rot_cost :: "TermTaskspacePose \<Rightarrow> mat3 \<Rightarrow> real" where
  "rot_cost this ee_rot =
     (let ee_rot_diff = mat_mul (transpose (w_R_ref this)) ee_rot
      in Q_rot this * norm_mat (mat_sub ee_rot_diff Identity))"

definition evalLocal :: "bool \<Rightarrow> TermTaskspacePose \<Rightarrow> real list \<Rightarrow> real list \<Rightarrow> real \<Rightarrow> real" where
  "evalLocal FB this x u t =
     (let rbdState = setStateFromVector FB x;
          njoints = NJOINTS (kinematics this);
          xDiff = vec_sub
            (getEEPositionInWorld (kinematics this) (eeInd this) (basePose rbdState)
               (jointPositions njoints rbdState))
            (w_p_ref this);
          ee_rot = getEERotInWorld (kinematics this) (eeInd this) (basePose rbdState)
               (jointPositions njoints rbdState)
      in pos_cost this xDiff + rot_cost this ee_rot)"

text \<open>
  The two public entry points. Both call the one template \<^verbatim>\<open>evalLocal\<close>: \<^verbatim>\<open>evaluate\<close> as
  \<^verbatim>\<open>evalLocal<SCALAR>\<close>, where the class declares \<^verbatim>\<open>using SCALAR = ct::core::ADCGScalar\<close>,
  and \<^verbatim>\<open>evaluateCppadCg\<close> as \<^verbatim>\<open>evalLocal<ct::core::ADCGScalar>\<close>. Which type a template is
  instantiated with is fixed when the program is compiled and has no counterpart here,
  where every scalar is a real number.
\<close>

definition evaluate :: "bool \<Rightarrow> TermTaskspacePose \<Rightarrow> real list \<Rightarrow> real list \<Rightarrow> real \<Rightarrow> real" where
  "evaluate FB this x u t = evalLocal FB this x u t"

definition evaluateCppadCg :: "bool \<Rightarrow> TermTaskspacePose \<Rightarrow> real list \<Rightarrow> real list \<Rightarrow> real \<Rightarrow> real" where
  "evaluateCppadCg FB this x u t = evalLocal FB this x u t"

subsection \<open>Loading from a configuration file\<close>

text \<open>
  Modelled from the spec: the readers \<^verbatim>\<open>loadScalarCF\<close> and \<^verbatim>\<open>loadMatrixCF\<close>
  (ct/optcon/costfunction/utility/utilities.hpp) are not part of the sources at hand.
  The spec describes the configuration source as keyed sections exposing scalar, vector
  and matrix field reads by section name and field name, where each read may fail: a
  field that is absent is \<open>MissingField\<close>, a field of the wrong shape is
  \<open>MalformedField\<close>. A read that fails leaves its target as it was. A matrix field holds
  its coefficients row by row.
\<close>

datatype cf_value = CfIndex nat | CfScalar real | CfMatrix "real list"

type_synonym config_file = "string \<Rightarrow> string \<Rightarrow> cf_value option"

datatype load_error = MissingField string | MalformedField string | MissingOrientation

definition loadScalarCF_size_t :: "config_file \<Rightarrow> string \<Rightarrow> string \<Rightarrow> load_error + nat" where
  "loadScalarCF_size_t file scalarName termName =
     (case file termName scalarName of
        None \<Rightarrow> Inl (MissingField scalarName)
      | Some (CfIndex n) \<Rightarrow> Inr n
      | Some _ \<Rightarrow> Inl (MalformedField scalarName))"

definition loadScalarCF_double :: "config_file \<Rightarrow> string \<Rightarrow> string \<Rightarrow> load_error + real" where
  "loadScalarCF_double file scalarName termName =
     (case file termName scalarName of
        None \<Rightarrow> Inl (MissingField scalarName)
      | Some (CfScalar r) \<Rightarrow> Inr r
      | Some _ \<Rightarrow> Inl (MalformedField scalarName))"

fun as_3x3 :: "real list \<Rightarrow> mat3 option" where
  "as_3x3 [a, b, c, d, e, f, g, h, k] = Some (Mat3 a b c d e f g h k)"
| "as_3x3 _ = None"

fun as_3x1 :: "real list \<Rightarrow> vec3 option" where
  "as_3x1 [a, b, c] = Some (Vec3 a b c)"
| "as_3x1 _ = None"

fun as_4x1 :: "real list \<Rightarrow> (real \<times> real \<times> real \<times> real) option" where
  "as_4x1 [a, b, c, d] = Some (a, b, c, d)"
| "as_4x1 _ = None"

definition loadMatrixCF :: "(real list \<Rightarrow> 'm option) \<Rightarrow> config_file \<Rightarrow> string \<Rightarrow> string \<Rightarrow> load_error + 'm" where
  "loadMatrixCF shape file matrixName termName =
     (case file termName matrixName of
        None \<Rightarrow> Inl (MissingField matrixName)
      | Some (CfMatrix vs) \<Rightarrow>
          (case shape vs of None \<Rightarrow> Inl (MalformedField matrixName) | Some m \<Rightarrow> Inr m)
      | Some _ \<Rightarrow> Inl (MalformedField matrixName))"

text \<open>
  \<^verbatim>\<open>loadConfigFile\<close> assigns the members one after the other; an exception leaves the
  function where it is thrown. The result is the exception, if any, and the members as
  they are when the function is left. \<open>file\<close> is the content of the file named by
  \<^verbatim>\<open>filename\<close>. What is printed is not modelled; \<open>verbose\<close> only selects printing.
  The exception thrown when no orientation is found is \<open>MissingOrientation\<close>.
\<close>

definition loadConfigFile ::
  "config_file \<Rightarrow> string \<Rightarrow> bool \<Rightarrow> TermTaskspacePose \<Rightarrow> load_error option \<times> TermTaskspacePose" where
  "loadConfigFile file termName verbose this =
     (case loadScalarCF_size_t file ''eeId'' termName of
        Inl e \<Rightarrow> (Some e, this)
      | Inr ee \<Rightarrow>
     (let this1 = this\<lparr>eeInd := ee\<rparr> in
      case loadScalarCF_double file ''Q_rot'' termName of
        Inl e \<Rightarrow> (Some e, this1)
      | Inr qrot \<Rightarrow>
     (let this2 = this1\<lparr>Q_rot := qrot\<rparr> in
      case loadMatrixCF as_3x3 file ''Q_pos'' termName of
        Inl e \<Rightarrow> (Some e, this2)
      | Inr qpos \<Rightarrow>
     (let this3 = this2\<lparr>Q_pos := qpos\<rparr> in
      case loadMatrixCF as_3x1 file ''x_des'' termName of
        Inl e \<Rightarrow> (Some e, this3)
      | Inr xdes \<Rightarrow>
     (let this4 = this3\<lparr>w_p_ref := xdes\<rparr> in
      case loadMatrixCF as_4x1 file ''quat_des'' termName of
        Inr (q0, q1, q2, q3) \<Rightarrow>
          (None, this4\<lparr>w_R_ref := toRotationMatrix (Quaternion q0 q1 q2 q3)\<rparr>)
      | Inl e \<Rightarrow>
          (case loadMatrixCF as_3x1 file ''eulerXyz_des'' termName of
             Inr eulerXyz \<Rightarrow>
               (None, this4\<lparr>w_R_ref := toRotationMatrix (quat_of_eulerXyz eulerXyz)\<rparr>)
           | Inl e' \<Rightarrow> (Some MissingOrientation, this4)))))))"

text \<open>
  The constructor from a configuration file. Its members start uninitialised
  (\<open>uninit\<close> stands for their indeterminate content) except for the default-constructed
  \<^verbatim>\<open>kinematics_\<close>; an exception thrown by \<^verbatim>\<open>loadConfigFile\<close> leaves the constructor, and
  no object comes into being.
\<close>

definition TermTaskspacePose_config ::
  "KINEMATICS \<Rightarrow> TermTaskspacePose \<Rightarrow> config_file \<Rightarrow> string \<Rightarrow> bool \<Rightarrow> load_error + TermTaskspacePose" where
  "TermTaskspacePose_config KIN uninit configFile termName verbose =
     (case loadConfigFile configFile termName verbose (uninit\<lparr>kinematics := KIN\<rparr>) of
        (None, this) \<Rightarrow> Inr this
      | (Some e, this) \<Rightarrow> Inl e)"

subsection \<open>The end-effector pose the kinematics provides for a state\<close>

text \<open>
  The two queries \<^verbatim>\<open>evalLocal\<close> makes, as functions of the state vector: the world position
  and the world rotation of the end effector.
\<close>

definition current_position :: "bool \<Rightarrow> TermTaskspacePose \<Rightarrow> real list \<Rightarrow> vec3" where
  "current_position FB this x =
     (let rbdState = setStateFromVector FB x
      in getEEPositionInWorld (kinematics this) (eeInd this) (basePose rbdState)
           (jointPositions (NJOINTS (kinematics this)) rbdState))"

definition current_rotation :: "bool \<Rightarrow> TermTaskspacePose \<Rightarrow> real list \<Rightarrow> mat3" where
  "current_rotation FB this x =
     (let rbdState = setStateFromVector FB x
      in getEERotInWorld (kinematics this) (eeInd this) (basePose rbdState)
           (jointPositions (NJOINTS (kinematics this)) rbdState))"

subsection \<open>The formulas of the specification\<close>

text \<open>
  The cost as the specification words it, with explicit sums over the indices:
  \<open>positionError\<^sup>T \<cdot> Wpos \<cdot> positionError\<close> and
  \<open>Wrot * \<parallel>referenceRotation\<^sup>T \<cdot> R - Identity\<parallel>\<close> with the Frobenius norm, the square
  root of the sum of the squares of the entries.
\<close>

definition positionCost_spec :: "mat3 \<Rightarrow> vec3 \<Rightarrow> real" where
  "positionCost_spec Wpos positionError =
     (\<Sum>i<(3::nat). \<Sum>j<(3::nat). vec_at positionError i * mat_at Wpos i j * vec_at positionError j)"

definition rotationDiff_minus_Identity_spec :: "mat3 \<Rightarrow> mat3 \<Rightarrow> nat \<Rightarrow> nat \<Rightarrow> real" where
  "rotationDiff_minus_Identity_spec referenceRotation R i j =
     (\<Sum>k<(3::nat). mat_at referenceRotation k i * mat_at R k j) - (if i = j then 1 else 0)"

definition rotationCost_spec :: "real \<Rightarrow> mat3 \<Rightarrow> mat3 \<Rightarrow> real" where
  "rotationCost_spec Wrot referenceRotation R =
     Wrot * sqrt (\<Sum>i<(3::nat). \<Sum>j<(3::nat). (rotationDiff_minus_Identity_spec referenceRotation R i j)\<^sup>2)"

text \<open>The elementary rotations about the X, Y and Z axes.\<close>

definition Rx :: "real \<Rightarrow> mat3" where
  "Rx a = Mat3 1 0 0  0 (cos a) (- sin a)  0 (sin a) (cos a)"

definition Ry :: "real \<Rightarrow> mat3" where
  "Ry a = Mat3 (cos a) 0 (sin a)  0 1 0  (- sin a) 0 (cos a)"

definition Rz :: "real \<Rightarrow> mat3" where
  "Rz a = Mat3 (cos a) (- sin a) 0  (sin a) (cos a) 0  0 0 1"

text \<open>A rotation matrix is orthonormal: its transpose is its inverse on both sides.\<close>

definition orthonormal :: "mat3 \<Rightarrow> bool" where
  "orthonormal M \<longleftrightarrow> mat_mul (transpose M) M = Identity \<and> mat_mul M (transpose M) = Identity"

text \<open>
  The rotation matrix of a quaternion in homogeneous form; it agrees with
  \<open>toRotationMatrix\<close> on unit quaternions and is multiplicative on all quaternions.
\<close>

fun homogeneous_rotation :: "Quaternion \<Rightarrow> mat3" where
  "homogeneous_rotation (Quaternion w x y z) =
     Mat3 (w * w + x * x - y * y - z * z) (2 * (x * y - w * z)) (2 * (x * z + w * y))
          (2 * (x * y + w * z)) (w * w - x * x + y * y - z * z) (2 * (y * z - w * x))
          (2 * (x * z - w * y)) (2 * (y * z + w * x)) (w * w - x * x - y * y + z * z)"

subsection \<open>Example instances\<close>

text \<open>
  A fixed-base kinematics with two joints, used to instantiate the theorems: the first
  joint slides the end effector along the world Z axis, the second turns it about Z.
\<close>

definition slide_turn_KIN :: KINEMATICS where
  "slide_turn_KIN =
     \<lparr>NJOINTS = 2,
      getEEPositionInWorld = (\<lambda>ee bp q. case q of [d, a] \<Rightarrow> Vec3 0 0 d | _ \<Rightarrow> Vec3 0 0 0),
      getEERotInWorld = (\<lambda>ee bp q. case q of [d, a] \<Rightarrow> Rz a | _ \<Rightarrow> Identity)\<rparr>"

text \<open>
  Configuration files with the one section \<open>term0\<close>: \<open>section_config\<close> holds the given
  fields, \<open>example_config\<close> the four required fields and the given orientation fields.
\<close>

definition section_config :: "(string \<times> cf_value) list \<Rightarrow> config_file" where
  "section_config entries termName fieldName =
     (if termName = ''term0'' then map_of entries fieldName else None)"

definition example_config :: "(string \<times> cf_value) list \<Rightarrow> config_file" where
  "example_config orientation =
     section_config ([(''eeId'', CfIndex 2), (''Q_rot'', CfScalar (1 / 2)),
                      (''Q_pos'', CfMatrix [1, 0, 0, 0, 1, 0, 0, 0, 1]),
                      (''x_des'', CfMatrix [0, 0, 1])] @ orientation)"

text \<open>The term of the specification's example, built by the quaternion constructor.\<close>

definition example_term :: TermTaskspacePose where
  "example_term =
     TermTaskspacePose_quat slide_turn_KIN 2 Identity (1 / 2) (Vec3 0 0 1) (Quaternion 1 0 0 0)"

section \<open>Properties\<close>

subsection \<open>Sums over three indices, and the cost in index form\<close>

lemma sum_lessThan_3: "(\<Sum>i<(3::nat). f i) = f 0 + f 1 + (f 2 :: real)"
  by (simp add: numeral_3_eq_3 numeral_2_eq_2 lessThan_Suc)

lemma pos_cost_spec: "pos_cost this e = positionCost_spec (Q_pos this) e"
  by (cases e; cases "Q_pos this")
     (simp add: pos_cost_def positionCost_spec_def sum_lessThan_3 algebra_simps)

lemma rot_cost_spec: "rot_cost this R = rotationCost_spec (Q_rot this) (w_R_ref this) R"
  by (cases "w_R_ref this"; cases R)
     (simp add: rot_cost_def rotationCost_spec_def rotationDiff_minus_Identity_spec_def
        sum_lessThan_3 Identity_def power2_eq_square algebra_simps)

lemma pos_cost_scale: "pos_cost this (vec_scale c e) = c\<^sup>2 * pos_cost this e"
  by (cases e; cases "Q_pos this") (simp add: pos_cost_def power2_eq_square algebra_simps)

lemma norm_mat_scale: "norm_mat (mat_scale c M) = \<bar>c\<bar> * norm_mat M"
proof (cases M)
  case (Mat3 a b c' d e f g h k)
  have "(c * a) * (c * a) + (c * b) * (c * b) + (c * c') * (c * c') + (c * d) * (c * d)
        + (c * e) * (c * e) + (c * f) * (c * f) + (c * g) * (c * g) + (c * h) * (c * h)
        + (c * k) * (c * k)
      = c\<^sup>2 * (a * a + b * b + c' * c' + d * d + e * e + f * f + g * g + h * h + k * k)"
    by (simp add: power2_eq_square algebra_simps)
  then show ?thesis using Mat3 by (simp add: real_sqrt_mult)
qed

lemma evalLocal_split:
  "evalLocal FB this x u t =
     pos_cost this (vec_sub (current_position FB this x) (w_p_ref this))
     + rot_cost this (current_rotation FB this x)"
  by (simp add: evalLocal_def current_position_def current_rotation_def Let_def)

text \<open>
  C1: for every state vector, \<open>evaluate\<close> returns
  \<open>positionError\<^sup>T \<cdot> Wpos \<cdot> positionError + Wrot * \<parallel>referenceRotation\<^sup>T \<cdot> R - Identity\<parallel>\<close>,
  where \<open>positionError\<close> is the position the kinematics provides minus the reference
  position and the norm is the Frobenius norm. The position term is quadratic (scaling
  the error by \<open>c\<close> scales it by \<open>c\<^sup>2\<close>); the rotation term is the norm itself, not its
  square (scaling the matrix by \<open>c\<close> scales it by \<open>\<bar>c\<bar>\<close>).
\<close>

theorem evaluate_formula:
  "evaluate FB this x u t =
     positionCost_spec (Q_pos this) (vec_sub (current_position FB this x) (w_p_ref this))
     + rotationCost_spec (Q_rot this) (w_R_ref this) (current_rotation FB this x)
   \<and> positionCost_spec (Q_pos this) (vec_scale c e) = c\<^sup>2 * positionCost_spec (Q_pos this) e
   \<and> Q_rot this * norm_mat (mat_scale c M) = \<bar>c\<bar> * (Q_rot this * norm_mat M)"
proof -
  have "positionCost_spec (Q_pos this) (vec_scale c e) = c\<^sup>2 * positionCost_spec (Q_pos this) e"
    using pos_cost_scale [of this c e] by (simp add: pos_cost_spec)
  then show ?thesis
    by (simp add: evaluate_def evalLocal_split pos_cost_spec rot_cost_spec norm_mat_scale)
qed

subsection \<open>Quaternions and rotation matrices\<close>

lemma toRotationMatrix_unit:
  assumes "squaredNorm q = 1"
  shows "toRotationMatrix q = homogeneous_rotation q"
proof (cases q)
  case (Quaternion w x y z)
  with assms have n: "w * w = 1 - x * x - y * y - z * z" by simp
  show ?thesis unfolding Quaternion by (simp add: Let_def n algebra_simps)
qed

lemma homogeneous_rotation_mul:
  "homogeneous_rotation (quat_mul p q) = mat_mul (homogeneous_rotation p) (homogeneous_rotation q)"
  by (cases p; cases q) (simp add: algebra_simps)

lemma squaredNorm_mul: "squaredNorm (quat_mul p q) = squaredNorm p * squaredNorm q"
  by (cases p; cases q) (simp add: algebra_simps)

lemma half_angle_square: "cos (a / 2) * cos (a / 2) + sin (a / 2) * sin (a / 2) = (1::real)"
  using sin_cos_squared_add2 [of "a / 2"] by (simp add: power2_eq_square)

lemma cos_half: "cos (a / 2) * cos (a / 2) - sin (a / 2) * sin (a / 2) = cos (a::real)"
  using cos_double [of "a / 2"] by (simp add: power2_eq_square)

lemma sin_half: "2 * (sin (a / 2) * cos (a / 2)) = sin (a::real)"
  using sin_double [of "a / 2"] by simp

lemma squaredNorm_AngleAxis:
  "squaredNorm (AngleAxis a UnitX) = 1"
  "squaredNorm (AngleAxis a UnitY) = 1"
  "squaredNorm (AngleAxis a UnitZ) = 1"
  by (simp_all add: UnitX_def UnitY_def UnitZ_def half_angle_square)

lemma homogeneous_AngleAxis_X: "homogeneous_rotation (AngleAxis a UnitX) = Rx a"
  using cos_half [of a] sin_half [of a] half_angle_square [of a]
  by (simp add: UnitX_def Rx_def mult.commute)

lemma homogeneous_AngleAxis_Y: "homogeneous_rotation (AngleAxis a UnitY) = Ry a"
  using cos_half [of a] sin_half [of a] half_angle_square [of a]
  by (simp add: UnitY_def Ry_def mult.commute)

lemma homogeneous_AngleAxis_Z: "homogeneous_rotation (AngleAxis a UnitZ) = Rz a"
  using cos_half [of a] sin_half [of a] half_angle_square [of a]
  by (simp add: UnitZ_def Rz_def mult.commute)

lemma squaredNorm_quat_of_eulerXyz: "squaredNorm (quat_of_eulerXyz e) = 1"
  by (simp add: quat_of_eulerXyz_def squaredNorm_mul squaredNorm_AngleAxis)

lemma normalized_unit: "squaredNorm q = 1 \<Longrightarrow> normalized q = q"
  by (simp add: normalized_def)

lemma toRotationMatrix_quat_of_eulerXyz:
  "toRotationMatrix (quat_of_eulerXyz (Vec3 r p y)) = mat_mul (mat_mul (Rx r) (Ry p)) (Rz y)"
  by (simp add: toRotationMatrix_unit squaredNorm_quat_of_eulerXyz)
     (simp add: quat_of_eulerXyz_def homogeneous_rotation_mul
        homogeneous_AngleAxis_X homogeneous_AngleAxis_Y homogeneous_AngleAxis_Z)

text \<open>
  C5: the Euler-XYZ constructor stores the reference rotation \<open>Rx roll \<cdot> Ry pitch \<cdot> Rz yaw\<close>,
  the matrices multiplied in that order from left to right, and it builds the same
  evaluator as the quaternion constructor does from any quaternion that represents this
  orientation; the two evaluators return the same cost.
\<close>

theorem euler_constructor_equivalent:
  "w_R_ref (TermTaskspacePose_euler KIN ee Qpos Qrot w_pos_des (Vec3 roll pitch yaw))
     = mat_mul (mat_mul (Rx roll) (Ry pitch)) (Rz yaw)
   \<and> (toRotationMatrix (normalized q) = mat_mul (mat_mul (Rx roll) (Ry pitch)) (Rz yaw) \<longrightarrow>
        TermTaskspacePose_euler KIN ee Qpos Qrot w_pos_des (Vec3 roll pitch yaw)
          = TermTaskspacePose_quat KIN ee Qpos Qrot w_pos_des q
        \<and> evaluate FB (TermTaskspacePose_euler KIN ee Qpos Qrot w_pos_des (Vec3 roll pitch yaw)) x u t
          = evaluate FB (TermTaskspacePose_quat KIN ee Qpos Qrot w_pos_des q) x u t)"
proof -
  have "toRotationMatrix (normalized (quat_of_eulerXyz (Vec3 roll pitch yaw)))
          = mat_mul (mat_mul (Rx roll) (Ry pitch)) (Rz yaw)"
    by (simp add: normalized_unit squaredNorm_quat_of_eulerXyz toRotationMatrix_quat_of_eulerXyz)
  then show ?thesis
    by (simp add: TermTaskspacePose_euler_def TermTaskspacePose_quat_def)
qed

theorem euler_constructor_equivalent_witness:
  "toRotationMatrix (normalized (Quaternion 0 3 0 0)) = mat_mul (mat_mul (Rx pi) (Ry 0)) (Rz 0)
   \<and> TermTaskspacePose_euler slide_turn_KIN 2 Identity (1 / 2) (Vec3 0 0 1) (Vec3 pi 0 0)
       = TermTaskspacePose_quat slide_turn_KIN 2 Identity (1 / 2) (Vec3 0 0 1) (Quaternion 0 3 0 0)
   \<and> w_R_ref (TermTaskspacePose_euler slide_turn_KIN 2 Identity (1 / 2) (Vec3 0 0 1) (Vec3 pi 0 0))
       = Mat3 1 0 0  0 (- 1) 0  0 0 (- 1)"
proof -
  have h: "toRotationMatrix (normalized (Quaternion 0 3 0 0)) = mat_mul (mat_mul (Rx pi) (Ry 0)) (Rz 0)"
    by (simp add: normalized_def Rx_def Ry_def Rz_def)
  show ?thesis
    using h euler_constructor_equivalent
      [of slide_turn_KIN 2 Identity "1 / 2" "Vec3 0 0 1" pi 0 0 "Quaternion 0 3 0 0"]
    by (simp add: Rx_def Ry_def Rz_def TermTaskspacePose_quat_def)
qed

subsection \<open>Matrix algebra and orthonormal matrices\<close>

lemma mat_mul_assoc: "mat_mul (mat_mul A B) C = mat_mul A (mat_mul B C)"
  by (cases A; cases B; cases C) (simp add: algebra_simps)

lemma mat_mul_Identity_left: "mat_mul Identity A = A"
  by (cases A) (simp add: Identity_def)

lemma mat_mul_Identity_right: "mat_mul A Identity = A"
  by (cases A) (simp add: Identity_def)

lemma norm_mat_nonneg: "0 \<le> norm_mat M"
  by (cases M) simp

lemma norm_mat_sub_zero_iff: "norm_mat (mat_sub A B) = 0 \<longleftrightarrow> A = B"
proof (cases A; cases B)
  fix a b c d e f g h k a' b' c' d' e' f' g' h' k'
  assume A: "A = Mat3 a b c d e f g h k" and B: "B = Mat3 a' b' c' d' e' f' g' h' k'"
  have "norm_mat (mat_sub A B) = 0 \<longleftrightarrow>
        (a - a')\<^sup>2 + (b - b')\<^sup>2 + (c - c')\<^sup>2 + (d - d')\<^sup>2 + (e - e')\<^sup>2 + (f - f')\<^sup>2
        + (g - g')\<^sup>2 + (h - h')\<^sup>2 + (k - k')\<^sup>2 = 0"
    by (simp add: A B power2_eq_square)
  also have "\<dots> \<longleftrightarrow> a - a' = 0 \<and> b - b' = 0 \<and> c - c' = 0 \<and> d - d' = 0 \<and> e - e' = 0
        \<and> f - f' = 0 \<and> g - g' = 0 \<and> h - h' = 0 \<and> k - k' = 0"
    by (simp add: sum_power2_eq_zero_iff add_nonneg_eq_0_iff)
  finally show ?thesis by (simp add: A B)
qed

lemma orthonormal_diff_iff:
  assumes "orthonormal Rref"
  shows "mat_mul (transpose Rref) R = Identity \<longleftrightarrow> R = Rref"
proof
  assume h: "mat_mul (transpose Rref) R = Identity"
  have "R = mat_mul (mat_mul Rref (transpose Rref)) R"
    using assms by (simp add: orthonormal_def mat_mul_Identity_left)
  also have "\<dots> = mat_mul Rref (mat_mul (transpose Rref) R)"
    by (rule mat_mul_assoc)
  also have "\<dots> = Rref"
    by (simp add: h mat_mul_Identity_right)
  finally show "R = Rref" .
next
  assume "R = Rref"
  then show "mat_mul (transpose Rref) R = Identity"
    using assms by (simp add: orthonormal_def)
qed

lemma orthonormal_Identity: "orthonormal Identity"
  by (simp add: orthonormal_def Identity_def)

text \<open>
  The quaternion constructor always stores an orthonormal reference rotation: a
  quaternion that is not zero is normalised first, and the zero quaternion gives the
  identity matrix.
\<close>

lemma homogeneous_rotation_orthonormal:
  assumes "squaredNorm q = 1"
  shows "orthonormal (homogeneous_rotation q)"
proof (cases q)
  case (Quaternion w x y z)
  define n where "n = w * w + x * x + y * y + z * z"
  have n: "n = 1" using assms Quaternion by (simp add: n_def)
  have "mat_mul (transpose (homogeneous_rotation q)) (homogeneous_rotation q) = mat_scale (n * n) Identity"
    unfolding Quaternion n_def by (simp add: Identity_def algebra_simps)
  moreover have "mat_mul (homogeneous_rotation q) (transpose (homogeneous_rotation q)) = mat_scale (n * n) Identity"
    unfolding Quaternion n_def by (simp add: Identity_def algebra_simps)
  ultimately show ?thesis
    by (simp add: orthonormal_def n Identity_def)
qed

lemma squaredNorm_normalized:
  assumes "0 < squaredNorm q"
  shows "squaredNorm (normalized q) = 1"
proof (cases q)
  case (Quaternion w x y z)
  define s where "s = w * w + x * x + y * y + z * z"
  have spos: "0 < s" using assms Quaternion by (simp add: s_def)
  have sq: "(a / sqrt s) * (a / sqrt s) = a * a / s" for a
    using spos by simp
  have "squaredNorm (normalized q) = w * w / s + x * x / s + y * y / s + z * z / s"
    using spos unfolding Quaternion by (simp add: normalized_def Let_def s_def [symmetric] sq)
  also have "\<dots> = (w * w + x * x + y * y + z * z) / s"
    by (simp add: add_divide_distrib)
  also have "\<dots> = s / s"
    by (simp only: s_def)
  finally show ?thesis using spos by simp
qed

lemma squaredNorm_zero: "\<not> 0 < squaredNorm q \<Longrightarrow> q = Quaternion 0 0 0 0"
proof (cases q)
  case (Quaternion w x y z)
  assume "\<not> 0 < squaredNorm q"
  then have "w * w + x * x + y * y + z * z \<le> 0" using Quaternion by simp
  moreover have "0 \<le> w * w" "0 \<le> x * x" "0 \<le> y * y" "0 \<le> z * z" by simp_all
  ultimately have "w * w = 0 \<and> x * x = 0 \<and> y * y = 0 \<and> z * z = 0" by linarith
  then show ?thesis using Quaternion by simp
qed

lemma quaternion_constructor_orthonormal:
  "orthonormal (w_R_ref (TermTaskspacePose_quat KIN ee Qpos Qrot w_pos_des q))"
proof (cases "0 < squaredNorm q")
  case True
  then have "squaredNorm (normalized q) = 1" by (rule squaredNorm_normalized)
  then show ?thesis
    by (simp add: TermTaskspacePose_quat_def toRotationMatrix_unit homogeneous_rotation_orthonormal)
next
  case False
  then have "q = Quaternion 0 0 0 0" by (rule squaredNorm_zero)
  then show ?thesis
    by (simp add: TermTaskspacePose_quat_def normalized_def orthonormal_def Identity_def)
qed

subsection \<open>The example instances\<close>

lemma example_term_fields:
  "eeInd example_term = 2" "kinematics example_term = slide_turn_KIN"
  "Q_pos example_term = Identity" "Q_rot example_term = 1 / 2"
  "w_p_ref example_term = Vec3 0 0 1" "w_R_ref example_term = Identity"
  by (simp_all add: example_term_def TermTaskspacePose_quat_def normalized_def Identity_def)

lemma slide_turn_rotation: "current_rotation False example_term [d, a, vd, va] = Rz a"
  by (simp add: current_rotation_def example_term_fields slide_turn_KIN_def
      setStateFromVector_def jointPositions_def)

lemma slide_turn_position: "current_position False example_term [d, a, vd, va] = Vec3 0 0 d"
  by (simp add: current_position_def example_term_fields slide_turn_KIN_def
      setStateFromVector_def jointPositions_def)

subsection \<open>The rotation cost\<close>

text \<open>
  C7, as stated, fails: with the rotation weight 0 the rotation cost is 0 although the
  end effector, turned by \<open>pi\<close> about Z, is not at the reference rotation.
\<close>

theorem rot_cost_zero_weight_counterexample:
  "rot_cost (TermTaskspacePose_quat slide_turn_KIN 2 Identity 0 (Vec3 0 0 1) (Quaternion 1 0 0 0))
     (current_rotation False
        (TermTaskspacePose_quat slide_turn_KIN 2 Identity 0 (Vec3 0 0 1) (Quaternion 1 0 0 0))
        [1, pi, 0, 0]) = 0
   \<and> current_rotation False
        (TermTaskspacePose_quat slide_turn_KIN 2 Identity 0 (Vec3 0 0 1) (Quaternion 1 0 0 0))
        [1, pi, 0, 0]
     \<noteq> w_R_ref (TermTaskspacePose_quat slide_turn_KIN 2 Identity 0 (Vec3 0 0 1) (Quaternion 1 0 0 0))"
  by (simp add: rot_cost_def current_rotation_def TermTaskspacePose_quat_def slide_turn_KIN_def
      setStateFromVector_def jointPositions_def normalized_def Rz_def Identity_def)

text \<open>
  C7, amended: for every state the rotation cost is non-negative when the rotation
  weight is non-negative; when the weight is positive and the reference rotation is
  orthonormal, the rotation cost is 0 if and only if the current end-effector rotation
  equals the reference rotation.
\<close>

theorem rot_cost_zero_iff:
  "(0 \<le> Q_rot this \<longrightarrow> 0 \<le> rot_cost this (current_rotation FB this x))
   \<and> (0 < Q_rot this \<and> orthonormal (w_R_ref this) \<longrightarrow>
        (rot_cost this (current_rotation FB this x) = 0
           \<longleftrightarrow> current_rotation FB this x = w_R_ref this))"
  by (simp add: rot_cost_def norm_mat_nonneg norm_mat_sub_zero_iff orthonormal_diff_iff)

theorem rot_cost_zero_iff_witness:
  "0 < Q_rot example_term \<and> orthonormal (w_R_ref example_term)
   \<and> rot_cost example_term (current_rotation False example_term [1, 0, 0, 0]) = 0
   \<and> current_rotation False example_term [1, 0, 0, 0] = w_R_ref example_term
   \<and> rot_cost example_term (current_rotation False example_term [1, pi, 0, 0]) \<noteq> 0
   \<and> 0 \<le> rot_cost example_term (current_rotation False example_term [1, pi, 0, 0])"
proof -
  have h: "0 < Q_rot example_term \<and> orthonormal (w_R_ref example_term)"
    by (simp add: example_term_fields orthonormal_Identity)
  have r0: "current_rotation False example_term [1, 0, 0, 0] = w_R_ref example_term"
    by (simp add: slide_turn_rotation example_term_fields Rz_def Identity_def)
  have r1: "current_rotation False example_term [1, pi, 0, 0] \<noteq> w_R_ref example_term"
    by (simp add: slide_turn_rotation example_term_fields Rz_def Identity_def)
  show ?thesis
    using h r0 r1 rot_cost_zero_iff [of example_term False "[1, 0, 0, 0]"]
      rot_cost_zero_iff [of example_term False "[1, pi, 0, 0]"]
    by simp
qed

subsection \<open>The cost at the reference pose\<close>

lemma pos_cost_zero: "pos_cost this (vec_sub p p) = 0"
  by (cases p; cases "Q_pos this") (simp add: pos_cost_def)

lemma rot_cost_at_reference:
  assumes "orthonormal (w_R_ref this)"
  shows "rot_cost this (w_R_ref this) = 0"
proof -
  have "mat_mul (transpose (w_R_ref this)) (w_R_ref this) = Identity"
    using assms by (simp add: orthonormal_def)
  then show ?thesis
    by (simp add: rot_cost_def Identity_def)
qed

text \<open>
  C6: when the end effector is at the reference pose (its position is the reference
  position, its rotation, a rotation matrix, is the reference rotation), \<open>evaluate\<close>
  returns 0, whatever the weights are. With \<open>Wpos\<close> the identity, \<open>Wrot = 0.5\<close>, reference
  position \<open>(0, 0, 1)\<close> and identity reference orientation, an end effector at
  \<open>(0, 0, 1)\<close> with identity orientation costs 0 and one at \<open>(0, 0, 1.1)\<close> costs
  \<open>0.01\<close>.
\<close>

theorem evaluate_at_reference_pose:
  "(current_position FB this x = w_p_ref this \<and> current_rotation FB this x = w_R_ref this
      \<and> orthonormal (current_rotation FB this x) \<longrightarrow>
    evaluate FB this x u t = 0)
   \<and> (Q_pos this = Identity \<and> Q_rot this = 1 / 2 \<and> w_p_ref this = Vec3 0 0 1
      \<and> w_R_ref this = Identity \<and> current_rotation FB this x = Identity \<longrightarrow>
        (current_position FB this x = Vec3 0 0 1 \<longrightarrow> evaluate FB this x u t = 0)
      \<and> (current_position FB this x = Vec3 0 0 (11 / 10) \<longrightarrow> evaluate FB this x u t = 1 / 100))"
proof (intro conjI impI)
  assume h: "current_position FB this x = w_p_ref this \<and> current_rotation FB this x = w_R_ref this
      \<and> orthonormal (current_rotation FB this x)"
  then have o: "orthonormal (w_R_ref this)" by metis
  have "evaluate FB this x u t
          = pos_cost this (vec_sub (w_p_ref this) (w_p_ref this)) + rot_cost this (w_R_ref this)"
    using h by (simp add: evaluate_def evalLocal_split)
  then show "evaluate FB this x u t = 0"
    by (simp add: pos_cost_zero rot_cost_at_reference [OF o])
next
  assume h: "Q_pos this = Identity \<and> Q_rot this = 1 / 2 \<and> w_p_ref this = Vec3 0 0 1
      \<and> w_R_ref this = Identity \<and> current_rotation FB this x = Identity"
    and p: "current_position FB this x = Vec3 0 0 1"
  show "evaluate FB this x u t = 0"
    using h p by (simp add: evaluate_def evalLocal_split pos_cost_def rot_cost_def Identity_def)
next
  assume h: "Q_pos this = Identity \<and> Q_rot this = 1 / 2 \<and> w_p_ref this = Vec3 0 0 1
      \<and> w_R_ref this = Identity \<and> current_rotation FB this x = Identity"
    and p: "current_position FB this x = Vec3 0 0 (11 / 10)"
  show "evaluate FB this x u t = 1 / 100"
    using h p by (simp add: evaluate_def evalLocal_split pos_cost_def rot_cost_def Identity_def)
qed

theorem evaluate_at_reference_pose_witness:
  "current_position False example_term [1, 0, 0, 0] = w_p_ref example_term
   \<and> current_rotation False example_term [1, 0, 0, 0] = w_R_ref example_term
   \<and> orthonormal (current_rotation False example_term [1, 0, 0, 0])
   \<and> evaluate False example_term [1, 0, 0, 0] [] 0 = 0
   \<and> current_position False example_term [11 / 10, 0, 0, 0] = Vec3 0 0 (11 / 10)
   \<and> evaluate False example_term [11 / 10, 0, 0, 0] [] 0 = 1 / 100"
proof -
  have r: "current_rotation False example_term [d, 0, 0, 0] = Identity" for d
    by (simp add: slide_turn_rotation Rz_def Identity_def)
  have p: "current_position False example_term [d, 0, 0, 0] = Vec3 0 0 d" for d
    by (simp add: slide_turn_position)
  show ?thesis
    using evaluate_at_reference_pose [of False example_term "[1, 0, 0, 0]" "[]" 0]
      evaluate_at_reference_pose [of False example_term "[11 / 10, 0, 0, 0]" "[]" 0]
    by (simp add: r p example_term_fields orthonormal_Identity)
qed

subsection \<open>Cloning\<close>

text \<open>
  C9: the clone holds the end-effector index, the position weight, the rotation weight,
  the reference position and the reference rotation of its source, its kinematics is a
  freshly constructed one, and it returns the same cost as its source (whose kinematics
  is default-constructed as well) for the same inputs.
\<close>

theorem clone_copies:
  "eeInd (clone KIN this) = eeInd this \<and> Q_pos (clone KIN this) = Q_pos this
   \<and> Q_rot (clone KIN this) = Q_rot this \<and> w_p_ref (clone KIN this) = w_p_ref this
   \<and> w_R_ref (clone KIN this) = w_R_ref this \<and> kinematics (clone KIN this) = KIN
   \<and> (kinematics this = KIN \<longrightarrow>
        evaluate FB (clone KIN this) x u t = evaluate FB this x u t
      \<and> evaluateCppadCg FB (clone KIN this) x u t = evaluateCppadCg FB this x u t)"
  by (simp add: clone_def TermTaskspacePose_copy_def evaluate_def evaluateCppadCg_def
      evalLocal_def pos_cost_def rot_cost_def)

theorem clone_copies_witness:
  "kinematics example_term = slide_turn_KIN
   \<and> evaluate False (clone slide_turn_KIN example_term) [11 / 10, 0, 0, 0] [] 0
       = evaluate False example_term [11 / 10, 0, 0, 0] [] 0
   \<and> w_R_ref (clone slide_turn_KIN example_term) = Identity"
  using clone_copies [of slide_turn_KIN example_term False "[11 / 10, 0, 0, 0]" "[]" 0]
  by (simp add: example_term_fields)

subsection \<open>Loading the orientation\<close>

lemma loadConfigFile_quat:
  assumes "loadScalarCF_size_t file ''eeId'' termName = Inr ee"
    and "loadScalarCF_double file ''Q_rot'' termName = Inr qrot"
    and "loadMatrixCF as_3x3 file ''Q_pos'' termName = Inr qpos"
    and "loadMatrixCF as_3x1 file ''x_des'' termName = Inr xdes"
    and "loadMatrixCF as_4x1 file ''quat_des'' termName = Inr (qa, qb, qc, qd)"
  shows "loadConfigFile file termName verbose this =
          (None, this\<lparr>eeInd := ee, Q_rot := qrot, Q_pos := qpos, w_p_ref := xdes,
                      w_R_ref := toRotationMatrix (Quaternion qa qb qc qd)\<rparr>)"
  unfolding loadConfigFile_def assms Let_def by (simp del: toRotationMatrix.simps)

lemma loadConfigFile_euler:
  assumes "loadScalarCF_size_t file ''eeId'' termName = Inr ee"
    and "loadScalarCF_double file ''Q_rot'' termName = Inr qrot"
    and "loadMatrixCF as_3x3 file ''Q_pos'' termName = Inr qpos"
    and "loadMatrixCF as_3x1 file ''x_des'' termName = Inr xdes"
    and "loadMatrixCF as_4x1 file ''quat_des'' termName = Inl e"
    and "loadMatrixCF as_3x1 file ''eulerXyz_des'' termName = Inr eulerXyz"
  shows "loadConfigFile file termName verbose this =
          (None, this\<lparr>eeInd := ee, Q_rot := qrot, Q_pos := qpos, w_p_ref := xdes,
                      w_R_ref := toRotationMatrix (quat_of_eulerXyz eulerXyz)\<rparr>)"
  unfolding loadConfigFile_def assms Let_def by (simp del: toRotationMatrix.simps)

lemma loadConfigFile_neither:
  assumes "loadScalarCF_size_t file ''eeId'' termName = Inr ee"
    and "loadScalarCF_double file ''Q_rot'' termName = Inr qrot"
    and "loadMatrixCF as_3x3 file ''Q_pos'' termName = Inr qpos"
    and "loadMatrixCF as_3x1 file ''x_des'' termName = Inr xdes"
    and "loadMatrixCF as_4x1 file ''quat_des'' termName = Inl e"
    and "loadMatrixCF as_3x1 file ''eulerXyz_des'' termName = Inl e'"
  shows "loadConfigFile file termName verbose this =
          (Some MissingOrientation,
           this\<lparr>eeInd := ee, Q_rot := qrot, Q_pos := qpos, w_p_ref := xdes\<rparr>)"
  unfolding loadConfigFile_def assms Let_def by (simp del: toRotationMatrix.simps)

lemma example_config_required:
  "loadScalarCF_size_t (example_config orientation) ''eeId'' ''term0'' = Inr 2"
  "loadScalarCF_double (example_config orientation) ''Q_rot'' ''term0'' = Inr (1 / 2)"
  "loadMatrixCF as_3x3 (example_config orientation) ''Q_pos'' ''term0'' = Inr Identity"
  "loadMatrixCF as_3x1 (example_config orientation) ''x_des'' ''term0'' = Inr (Vec3 0 0 1)"
  by (simp_all add: example_config_def section_config_def loadScalarCF_size_t_def
      loadScalarCF_double_def loadMatrixCF_def Identity_def)

lemma example_config_orientation:
  "loadMatrixCF as_4x1 (example_config [(''quat_des'', CfMatrix [0, 1, 0, 0]), (''eulerXyz_des'', CfMatrix [0, 0, 0])])
     ''quat_des'' ''term0'' = Inr (0, 1, 0, 0)"
  "loadMatrixCF as_4x1 (example_config [(''quat_des'', CfMatrix [1, 0, 0]), (''eulerXyz_des'', CfMatrix [0, 0, 0])])
     ''quat_des'' ''term0'' = Inl (MalformedField ''quat_des'')"
  "loadMatrixCF as_3x1 (example_config [(''quat_des'', CfMatrix [1, 0, 0]), (''eulerXyz_des'', CfMatrix [0, 0, 0])])
     ''eulerXyz_des'' ''term0'' = Inr (Vec3 0 0 0)"
  "loadMatrixCF as_4x1 (example_config []) ''quat_des'' ''term0'' = Inl (MissingField ''quat_des'')"
  "loadMatrixCF as_3x1 (example_config []) ''eulerXyz_des'' ''term0'' = Inl (MissingField ''eulerXyz_des'')"
  by (simp_all add: example_config_def section_config_def loadMatrixCF_def)

lemma example_config_quat:
  "loadMatrixCF as_4x1 (example_config [(''quat_des'', CfMatrix [a, b, c, d])]) ''quat_des'' ''term0''
     = Inr (a, b, c, d)"
  by (simp add: example_config_def section_config_def loadMatrixCF_def)

text \<open>
  C2: once the four required fields are read, the quaternion field is tried first and,
  when it is read, decides the reference rotation whatever the Euler field holds; the
  Euler field is read only when the quaternion read failed; when both reads fail,
  loading fails with \<open>MissingOrientation\<close>, the reference rotation is left as it was and
  the constructor yields no evaluator.
\<close>

theorem orientation_fallback:
  assumes "loadScalarCF_size_t file ''eeId'' termName = Inr ee"
    and "loadScalarCF_double file ''Q_rot'' termName = Inr qrot"
    and "loadMatrixCF as_3x3 file ''Q_pos'' termName = Inr qpos"
    and "loadMatrixCF as_3x1 file ''x_des'' termName = Inr xdes"
  shows
   "(loadMatrixCF as_4x1 file ''quat_des'' termName = Inr (qa, qb, qc, qd) \<longrightarrow>
       loadConfigFile file termName verbose this =
         (None, this\<lparr>eeInd := ee, Q_rot := qrot, Q_pos := qpos, w_p_ref := xdes,
                     w_R_ref := toRotationMatrix (Quaternion qa qb qc qd)\<rparr>))
    \<and> (loadMatrixCF as_4x1 file ''quat_des'' termName = Inl e
       \<and> loadMatrixCF as_3x1 file ''eulerXyz_des'' termName = Inr eulerXyz \<longrightarrow>
       loadConfigFile file termName verbose this =
         (None, this\<lparr>eeInd := ee, Q_rot := qrot, Q_pos := qpos, w_p_ref := xdes,
                     w_R_ref := toRotationMatrix (quat_of_eulerXyz eulerXyz)\<rparr>))
    \<and> (loadMatrixCF as_4x1 file ''quat_des'' termName = Inl e
       \<and> loadMatrixCF as_3x1 file ''eulerXyz_des'' termName = Inl e' \<longrightarrow>
       fst (loadConfigFile file termName verbose this) = Some MissingOrientation
       \<and> w_R_ref (snd (loadConfigFile file termName verbose this)) = w_R_ref this
       \<and> TermTaskspacePose_config KIN uninit file termName verbose = Inl MissingOrientation)"
proof (intro conjI impI)
  assume "loadMatrixCF as_4x1 file ''quat_des'' termName = Inr (qa, qb, qc, qd)"
  then show "loadConfigFile file termName verbose this =
         (None, this\<lparr>eeInd := ee, Q_rot := qrot, Q_pos := qpos, w_p_ref := xdes,
                     w_R_ref := toRotationMatrix (Quaternion qa qb qc qd)\<rparr>)"
    by (rule loadConfigFile_quat [OF assms])
next
  assume "loadMatrixCF as_4x1 file ''quat_des'' termName = Inl e
       \<and> loadMatrixCF as_3x1 file ''eulerXyz_des'' termName = Inr eulerXyz"
  then show "loadConfigFile file termName verbose this =
         (None, this\<lparr>eeInd := ee, Q_rot := qrot, Q_pos := qpos, w_p_ref := xdes,
                     w_R_ref := toRotationMatrix (quat_of_eulerXyz eulerXyz)\<rparr>)"
    using loadConfigFile_euler [OF assms] by blast
next
  assume h: "loadMatrixCF as_4x1 file ''quat_des'' termName = Inl e
       \<and> loadMatrixCF as_3x1 file ''eulerXyz_des'' termName = Inl e'"
  note L = loadConfigFile_neither [OF assms conjunct1 [OF h] conjunct2 [OF h]]
  show "fst (loadConfigFile file termName verbose this) = Some MissingOrientation"
    unfolding L by simp
  show "w_R_ref (snd (loadConfigFile file termName verbose this)) = w_R_ref this"
    unfolding L by simp
  show "TermTaskspacePose_config KIN uninit file termName verbose = Inl MissingOrientation"
    unfolding TermTaskspacePose_config_def L by simp
qed

theorem orientation_fallback_witness:
  "w_R_ref (snd (loadConfigFile
      (example_config [(''quat_des'', CfMatrix [0, 1, 0, 0]), (''eulerXyz_des'', CfMatrix [0, 0, 0])])
      ''term0'' False example_term)) = Mat3 1 0 0  0 (- 1) 0  0 0 (- 1)
   \<and> w_R_ref (snd (loadConfigFile
      (example_config [(''quat_des'', CfMatrix [1, 0, 0]), (''eulerXyz_des'', CfMatrix [0, 0, 0])])
      ''term0'' False example_term)) = Mat3 1 0 0  0 1 0  0 0 1
   \<and> fst (loadConfigFile (example_config []) ''term0'' False example_term) = Some MissingOrientation
   \<and> TermTaskspacePose_config slide_turn_KIN example_term (example_config []) ''term0'' False
       = Inl MissingOrientation"
proof -
  have a: "loadConfigFile
      (example_config [(''quat_des'', CfMatrix [0, 1, 0, 0]), (''eulerXyz_des'', CfMatrix [0, 0, 0])])
      ''term0'' False example_term
      = (None, example_term\<lparr>eeInd := 2, Q_rot := 1 / 2, Q_pos := Identity, w_p_ref := Vec3 0 0 1,
                 w_R_ref := toRotationMatrix (Quaternion 0 1 0 0)\<rparr>)"
    using orientation_fallback
      [OF example_config_required
            [of "[(''quat_des'', CfMatrix [0, 1, 0, 0]), (''eulerXyz_des'', CfMatrix [0, 0, 0])]"],
       where qa = 0 and qb = 1 and qc = 0 and qd = 0 and verbose = False and this = example_term]
      example_config_orientation(1)
    by blast
  have b: "loadConfigFile
      (example_config [(''quat_des'', CfMatrix [1, 0, 0]), (''eulerXyz_des'', CfMatrix [0, 0, 0])])
      ''term0'' False example_term
      = (None, example_term\<lparr>eeInd := 2, Q_rot := 1 / 2, Q_pos := Identity, w_p_ref := Vec3 0 0 1,
                 w_R_ref := toRotationMatrix (quat_of_eulerXyz (Vec3 0 0 0))\<rparr>)"
    using orientation_fallback
      [OF example_config_required
            [of "[(''quat_des'', CfMatrix [1, 0, 0]), (''eulerXyz_des'', CfMatrix [0, 0, 0])]"],
       where e = "MalformedField ''quat_des''" and eulerXyz = "Vec3 0 0 0" and verbose = False
         and this = example_term]
      example_config_orientation(2,3)
    by blast
  have c: "fst (loadConfigFile (example_config []) ''term0'' False example_term) = Some MissingOrientation
     \<and> TermTaskspacePose_config slide_turn_KIN example_term (example_config []) ''term0'' False
       = Inl MissingOrientation"
    using orientation_fallback
      [OF example_config_required [of "[]"],
       where e = "MissingField ''quat_des''" and e' = "MissingField ''eulerXyz_des''"
         and verbose = False and this = example_term and KIN = slide_turn_KIN
         and uninit = example_term]
      example_config_orientation(4,5)
    by blast
  have d: "toRotationMatrix (quat_of_eulerXyz (Vec3 0 0 0)) = Mat3 1 0 0  0 1 0  0 0 1"
    by (simp add: quat_of_eulerXyz_def UnitX_def UnitY_def UnitZ_def)
  show ?thesis
    by (simp add: a b c d)
qed

subsection \<open>Normalisation of the quaternion on the two paths\<close>

lemma toRotationMatrix_diagonal:
  "m00 (toRotationMatrix (Quaternion w x y z)) = 1 - 2 * (y * y + z * z)"
  "m11 (toRotationMatrix (Quaternion w x y z)) = 1 - 2 * (x * x + z * z)"
  "m22 (toRotationMatrix (Quaternion w x y z)) = 1 - 2 * (x * x + y * y)"
  by (simp_all add: Let_def algebra_simps)

lemma toRotationMatrix_normalized_differs:
  assumes n1: "squaredNorm (Quaternion w x y z) \<noteq> 1" and v: "x \<noteq> 0 \<or> y \<noteq> 0 \<or> z \<noteq> 0"
  shows "toRotationMatrix (normalized (Quaternion w x y z)) \<noteq> toRotationMatrix (Quaternion w x y z)"
proof
  define s where "s = w * w + x * x + y * y + z * z"
  define r where "r = sqrt s"
  have vpos: "0 < x * x + y * y + z * z"
    using v by (metis add_pos_nonneg add_nonneg_pos zero_le_square not_real_square_gt_zero add_nonneg_nonneg)
  have spos: "0 < s"
    using vpos unfolding s_def by (smt (verit) zero_le_square)
  have rr: "r * r = s" and rpos: "0 < r"
    using spos by (simp_all add: r_def)
  have norm: "normalized (Quaternion w x y z) = Quaternion (w / r) (x / r) (y / r) (z / r)"
    using spos by (simp add: normalized_def Let_def s_def r_def)
  have sq: "(a / r) * (a / r) = a * a / s" for a
    using rr by simp
  assume eq: "toRotationMatrix (normalized (Quaternion w x y z)) = toRotationMatrix (Quaternion w x y z)"
  have e0: "y * y / s + z * z / s = y * y + z * z"
    using arg_cong [OF eq, of m00] unfolding norm toRotationMatrix_diagonal sq by simp
  have e1: "x * x / s + z * z / s = x * x + z * z"
    using arg_cong [OF eq, of m11] unfolding norm toRotationMatrix_diagonal sq by simp
  have e2: "x * x / s + y * y / s = x * x + y * y"
    using arg_cong [OF eq, of m22] unfolding norm toRotationMatrix_diagonal sq by simp
  define v where "v = x * x + y * y + z * z"
  have "v / s = v"
    using e0 e1 e2 by (simp add: v_def add_divide_distrib)
  then have "v = v * s"
    using spos by (simp add: field_simps)
  then have "s = 1"
    using vpos by (simp add: v_def)
  then show False using n1 by (simp add: s_def)
qed

text \<open>
  C3, as stated, fails: the quaternion \<open>(2, 0, 0, 0)\<close> is not of unit norm, and both
  paths produce the same reference rotation from it (the identity).
\<close>

theorem quaternion_paths_agree_counterexample:
  "squaredNorm (Quaternion 2 0 0 0) \<noteq> 1
   \<and> fst (loadConfigFile (example_config [(''quat_des'', CfMatrix [2, 0, 0, 0])])
            ''term0'' False example_term) = None
   \<and> w_R_ref (TermTaskspacePose_quat slide_turn_KIN 2 Identity (1 / 2) (Vec3 0 0 1) (Quaternion 2 0 0 0))
       = w_R_ref (snd (loadConfigFile (example_config [(''quat_des'', CfMatrix [2, 0, 0, 0])])
                      ''term0'' False example_term))"
proof -
  note L = loadConfigFile_quat
    [OF example_config_required [of "[(''quat_des'', CfMatrix [2, 0, 0, 0])]"]
        example_config_quat [of 2 0 0 0], of False example_term]
  have "w_R_ref (snd (loadConfigFile (example_config [(''quat_des'', CfMatrix [2, 0, 0, 0])])
                      ''term0'' False example_term)) = toRotationMatrix (Quaternion 2 0 0 0)"
    and "fst (loadConfigFile (example_config [(''quat_des'', CfMatrix [2, 0, 0, 0])])
            ''term0'' False example_term) = None"
    unfolding L by simp_all
  then show ?thesis
    by (simp add: TermTaskspacePose_quat_def normalized_def)
qed

text \<open>
  C3, amended: the quaternion constructor normalises the quaternion before it builds the
  reference rotation, loading from a configuration file builds it from the four values
  as they are; for a quaternion that is not of unit norm and whose vector part
  \<open>(x, y, z)\<close> is not zero, the two paths produce different reference rotations.
\<close>

theorem quaternion_paths_differ:
  assumes "loadScalarCF_size_t file ''eeId'' termName = Inr ee"
    and "loadScalarCF_double file ''Q_rot'' termName = Inr qrot"
    and "loadMatrixCF as_3x3 file ''Q_pos'' termName = Inr qpos"
    and "loadMatrixCF as_3x1 file ''x_des'' termName = Inr xdes"
    and "loadMatrixCF as_4x1 file ''quat_des'' termName = Inr (qa, qb, qc, qd)"
    and "squaredNorm (Quaternion qa qb qc qd) \<noteq> 1"
    and "qb \<noteq> 0 \<or> qc \<noteq> 0 \<or> qd \<noteq> 0"
  shows
   "w_R_ref (TermTaskspacePose_quat KIN ee qpos qrot xdes (Quaternion qa qb qc qd))
      = toRotationMatrix (normalized (Quaternion qa qb qc qd))
    \<and> fst (loadConfigFile file termName verbose this) = None
    \<and> w_R_ref (snd (loadConfigFile file termName verbose this))
      = toRotationMatrix (Quaternion qa qb qc qd)
    \<and> w_R_ref (TermTaskspacePose_quat KIN ee qpos qrot xdes (Quaternion qa qb qc qd))
      \<noteq> w_R_ref (snd (loadConfigFile file termName verbose this))"
proof -
  note L = loadConfigFile_quat [OF assms(1-5)]
  have "w_R_ref (snd (loadConfigFile file termName verbose this))
          = toRotationMatrix (Quaternion qa qb qc qd)"
    and "fst (loadConfigFile file termName verbose this) = None"
    unfolding L by (simp_all del: toRotationMatrix.simps)
  moreover have "w_R_ref (TermTaskspacePose_quat KIN ee qpos qrot xdes (Quaternion qa qb qc qd))
      = toRotationMatrix (normalized (Quaternion qa qb qc qd))"
    by (simp add: TermTaskspacePose_quat_def del: toRotationMatrix.simps)
  ultimately show ?thesis
    using toRotationMatrix_normalized_differs [OF assms(6,7)]
    by (simp del: toRotationMatrix.simps)
qed

theorem quaternion_paths_differ_witness:
  "squaredNorm (Quaternion 0 2 0 0) \<noteq> 1
   \<and> w_R_ref (TermTaskspacePose_quat slide_turn_KIN 2 Identity (1 / 2) (Vec3 0 0 1) (Quaternion 0 2 0 0))
       = Mat3 1 0 0  0 (- 1) 0  0 0 (- 1)
   \<and> w_R_ref (snd (loadConfigFile (example_config [(''quat_des'', CfMatrix [0, 2, 0, 0])])
                      ''term0'' False example_term))
       = Mat3 1 0 0  0 (- 7) 0  0 0 (- 7)
   \<and> w_R_ref (TermTaskspacePose_quat slide_turn_KIN 2 Identity (1 / 2) (Vec3 0 0 1) (Quaternion 0 2 0 0))
       \<noteq> w_R_ref (snd (loadConfigFile (example_config [(''quat_des'', CfMatrix [0, 2, 0, 0])])
                      ''term0'' False example_term))"
proof -
  have n: "squaredNorm (Quaternion 0 2 0 0) \<noteq> 1" and v: "(2::real) \<noteq> 0 \<or> (0::real) \<noteq> 0 \<or> (0::real) \<noteq> 0"
    by simp_all
  have m: "toRotationMatrix (normalized (Quaternion 0 2 0 0)) = Mat3 1 0 0  0 (- 1) 0  0 0 (- 1)"
    "toRotationMatrix (Quaternion 0 2 0 0) = Mat3 1 0 0  0 (- 7) 0  0 0 (- 7)"
    by (simp_all add: normalized_def)
  show ?thesis
    using quaternion_paths_differ
      [OF example_config_required [of "[(''quat_des'', CfMatrix [0, 2, 0, 0])]"]
          example_config_quat [of 0 2 0 0] n v,
       where KIN = slide_turn_KIN and verbose = False and this = example_term]
    by (simp add: m)
qed

subsection \<open>Construction from a configuration file\<close>

lemma loadConfigFile_success:
  assumes "loadConfigFile file termName verbose this = (None, T)"
  shows "loadScalarCF_size_t file ''eeId'' termName = Inr (eeInd T)
    \<and> loadScalarCF_double file ''Q_rot'' termName = Inr (Q_rot T)
    \<and> loadMatrixCF as_3x3 file ''Q_pos'' termName = Inr (Q_pos T)
    \<and> loadMatrixCF as_3x1 file ''x_des'' termName = Inr (w_p_ref T)
    \<and> kinematics T = kinematics this
    \<and> ((\<exists>qa qb qc qd. loadMatrixCF as_4x1 file ''quat_des'' termName = Inr (qa, qb, qc, qd)
            \<and> w_R_ref T = toRotationMatrix (Quaternion qa qb qc qd))
        \<or> (\<exists>e eulerXyz. loadMatrixCF as_4x1 file ''quat_des'' termName = Inl e
            \<and> loadMatrixCF as_3x1 file ''eulerXyz_des'' termName = Inr eulerXyz
            \<and> w_R_ref T = toRotationMatrix (quat_of_eulerXyz eulerXyz)))"
  using assms unfolding loadConfigFile_def Let_def
  by (auto simp del: toRotationMatrix.simps split: sum.splits prod.splits)

lemma loadConfigFile_independent:
  assumes "loadConfigFile file termName verbose this = (None, T)"
    and "kinematics this' = kinematics this"
  shows "loadConfigFile file termName verbose this' = (None, T)"
proof -
  obtain a b c d e f where t: "this = \<lparr>eeInd = a, kinematics = b, Q_pos = c, Q_rot = d, w_p_ref = e, w_R_ref = f\<rparr>"
    by (cases this) simp
  obtain a' c' d' e' f' where t': "this' = \<lparr>eeInd = a', kinematics = b, Q_pos = c', Q_rot = d', w_p_ref = e', w_R_ref = f'\<rparr>"
    using assms(2) t by (cases this') simp
  show ?thesis
    using assms(1) unfolding loadConfigFile_def Let_def t t'
    by (auto simp del: toRotationMatrix.simps split: sum.splits prod.splits)
qed

text \<open>
  C10, as stated, fails: \<open>loadConfigFile\<close> called on an evaluator with a file that holds
  \<open>eeId\<close> only fails on \<open>Q_rot\<close> and leaves an evaluator whose end-effector index is
  the loaded one and whose other members are the former ones.
\<close>

theorem loadConfigFile_partial_counterexample:
  "loadConfigFile (section_config [(''eeId'', CfIndex 7)]) ''term0'' False example_term
     = (Some (MissingField ''Q_rot''), example_term\<lparr>eeInd := 7\<rparr>)
   \<and> eeInd example_term = 2
   \<and> eeInd (snd (loadConfigFile (section_config [(''eeId'', CfIndex 7)]) ''term0'' False example_term)) = 7
   \<and> Q_rot (snd (loadConfigFile (section_config [(''eeId'', CfIndex 7)]) ''term0'' False example_term))
       = Q_rot example_term"
  by (simp add: loadConfigFile_def section_config_def loadScalarCF_size_t_def
      loadScalarCF_double_def example_term_fields)

text \<open>
  C10, amended: construction from a configuration file is all-or-nothing. When loading
  fails the constructor fails with that error and yields no evaluator; when it succeeds,
  every parameter of the evaluator is the value read from the file (the orientation
  from the quaternion field, or else from the Euler field), nothing is substituted for
  a missing value, and nothing of the former content of the members remains.
\<close>

theorem config_constructor_all_or_nothing:
  "(fst (loadConfigFile configFile termName verbose (uninit\<lparr>kinematics := KIN\<rparr>)) = Some e \<longrightarrow>
      TermTaskspacePose_config KIN uninit configFile termName verbose = Inl e)
   \<and> (TermTaskspacePose_config KIN uninit configFile termName verbose = Inr T \<longrightarrow>
      loadScalarCF_size_t configFile ''eeId'' termName = Inr (eeInd T)
      \<and> loadScalarCF_double configFile ''Q_rot'' termName = Inr (Q_rot T)
      \<and> loadMatrixCF as_3x3 configFile ''Q_pos'' termName = Inr (Q_pos T)
      \<and> loadMatrixCF as_3x1 configFile ''x_des'' termName = Inr (w_p_ref T)
      \<and> kinematics T = KIN
      \<and> ((\<exists>qa qb qc qd. loadMatrixCF as_4x1 configFile ''quat_des'' termName = Inr (qa, qb, qc, qd)
              \<and> w_R_ref T = toRotationMatrix (Quaternion qa qb qc qd))
          \<or> (\<exists>e eulerXyz. loadMatrixCF as_4x1 configFile ''quat_des'' termName = Inl e
              \<and> loadMatrixCF as_3x1 configFile ''eulerXyz_des'' termName = Inr eulerXyz
              \<and> w_R_ref T = toRotationMatrix (quat_of_eulerXyz eulerXyz)))
      \<and> TermTaskspacePose_config KIN uninit' configFile termName verbose = Inr T)"
proof (intro conjI impI)
  assume "fst (loadConfigFile configFile termName verbose (uninit\<lparr>kinematics := KIN\<rparr>)) = Some e"
  then show "TermTaskspacePose_config KIN uninit configFile termName verbose = Inl e"
    by (cases "loadConfigFile configFile termName verbose (uninit\<lparr>kinematics := KIN\<rparr>)")
       (auto simp add: TermTaskspacePose_config_def)
next
  assume "TermTaskspacePose_config KIN uninit configFile termName verbose = Inr T"
  then have L: "loadConfigFile configFile termName verbose (uninit\<lparr>kinematics := KIN\<rparr>) = (None, T)"
    by (cases "loadConfigFile configFile termName verbose (uninit\<lparr>kinematics := KIN\<rparr>)")
       (auto simp add: TermTaskspacePose_config_def split: option.splits)
  note S = loadConfigFile_success [OF L]
  show "loadScalarCF_size_t configFile ''eeId'' termName = Inr (eeInd T)"
    and "loadScalarCF_double configFile ''Q_rot'' termName = Inr (Q_rot T)"
    and "loadMatrixCF as_3x3 configFile ''Q_pos'' termName = Inr (Q_pos T)"
    and "loadMatrixCF as_3x1 configFile ''x_des'' termName = Inr (w_p_ref T)"
    and "(\<exists>qa qb qc qd. loadMatrixCF as_4x1 configFile ''quat_des'' termName = Inr (qa, qb, qc, qd)
              \<and> w_R_ref T = toRotationMatrix (Quaternion qa qb qc qd))
          \<or> (\<exists>e eulerXyz. loadMatrixCF as_4x1 configFile ''quat_des'' termName = Inl e
              \<and> loadMatrixCF as_3x1 configFile ''eulerXyz_des'' termName = Inr eulerXyz
              \<and> w_R_ref T = toRotationMatrix (quat_of_eulerXyz eulerXyz))"
    using S by blast+
  show "kinematics T = KIN"
    using S by simp
  have "loadConfigFile configFile termName verbose (uninit'\<lparr>kinematics := KIN\<rparr>) = (None, T)"
    by (rule loadConfigFile_independent [OF L]) simp
  then show "TermTaskspacePose_config KIN uninit' configFile termName verbose = Inr T"
    by (simp add: TermTaskspacePose_config_def)
qed

theorem config_constructor_all_or_nothing_witness:
  "TermTaskspacePose_config slide_turn_KIN example_term
      (example_config [(''quat_des'', CfMatrix [0, 1, 0, 0])]) ''term0'' False
     = Inr \<lparr>eeInd = 2, kinematics = slide_turn_KIN, Q_pos = Identity, Q_rot = 1 / 2,
            w_p_ref = Vec3 0 0 1, w_R_ref = toRotationMatrix (Quaternion 0 1 0 0)\<rparr>
   \<and> TermTaskspacePose_config slide_turn_KIN
        \<lparr>eeInd = 0, kinematics = slide_turn_KIN, Q_pos = Rx 1, Q_rot = 9,
         w_p_ref = Vec3 4 5 6, w_R_ref = Rz 1\<rparr>
        (example_config [(''quat_des'', CfMatrix [0, 1, 0, 0])]) ''term0'' False
     = Inr \<lparr>eeInd = 2, kinematics = slide_turn_KIN, Q_pos = Identity, Q_rot = 1 / 2,
            w_p_ref = Vec3 0 0 1, w_R_ref = toRotationMatrix (Quaternion 0 1 0 0)\<rparr>
   \<and> fst (loadConfigFile (example_config []) ''term0'' False (example_term\<lparr>kinematics := slide_turn_KIN\<rparr>))
       = Some MissingOrientation
   \<and> TermTaskspacePose_config slide_turn_KIN example_term (example_config []) ''term0'' False
       = Inl MissingOrientation"
proof -
  have L: "loadConfigFile (example_config [(''quat_des'', CfMatrix [0, 1, 0, 0])]) ''term0'' False
            (example_term\<lparr>kinematics := slide_turn_KIN\<rparr>)
        = (None, \<lparr>eeInd = 2, kinematics = slide_turn_KIN, Q_pos = Identity, Q_rot = 1 / 2,
            w_p_ref = Vec3 0 0 1, w_R_ref = toRotationMatrix (Quaternion 0 1 0 0)\<rparr>)"
    unfolding loadConfigFile_quat
      [OF example_config_required [of "[(''quat_des'', CfMatrix [0, 1, 0, 0])]"]
          example_config_quat [of 0 1 0 0]]
    by (simp add: example_term_def TermTaskspacePose_quat_def del: toRotationMatrix.simps)
  then have a: "TermTaskspacePose_config slide_turn_KIN example_term
      (example_config [(''quat_des'', CfMatrix [0, 1, 0, 0])]) ''term0'' False
     = Inr \<lparr>eeInd = 2, kinematics = slide_turn_KIN, Q_pos = Identity, Q_rot = 1 / 2,
            w_p_ref = Vec3 0 0 1, w_R_ref = toRotationMatrix (Quaternion 0 1 0 0)\<rparr>"
    by (simp add: TermTaskspacePose_config_def del: toRotationMatrix.simps)
  have N: "fst (loadConfigFile (example_config []) ''term0'' False (example_term\<lparr>kinematics := slide_turn_KIN\<rparr>))
       = Some MissingOrientation"
    unfolding loadConfigFile_neither
      [OF example_config_required [of "[]"] example_config_orientation(4,5)]
    by simp
  show ?thesis
    using a N
      config_constructor_all_or_nothing
        [where KIN = slide_turn_KIN and uninit = example_term and termName = "''term0''"
           and verbose = False
           and configFile = "example_config [(''quat_des'', CfMatrix [0, 1, 0, 0])]"
           and T = "\<lparr>eeInd = 2, kinematics = slide_turn_KIN, Q_pos = Identity, Q_rot = 1 / 2,
              w_p_ref = Vec3 0 0 1, w_R_ref = toRotationMatrix (Quaternion 0 1 0 0)\<rparr>"
           and uninit' = "\<lparr>eeInd = 0, kinematics = slide_turn_KIN, Q_pos = Rx 1, Q_rot = 9,
              w_p_ref = Vec3 4 5 6, w_R_ref = Rz 1\<rparr>"]
      config_constructor_all_or_nothing
        [where KIN = slide_turn_KIN and uninit = example_term and termName = "''term0''"
           and verbose = False and configFile = "example_config []" and e = MissingOrientation]
    by blast
qed

subsection \<open>State extraction\<close>

text \<open>
  C8, as stated, fails: for a fixed-base evaluator with two joints and a state of four
  entries, the joint positions are the leading two entries, not the entire input.
\<close>

theorem fixed_base_input_counterexample:
  "jointPositions (NJOINTS slide_turn_KIN) (setStateFromVector False [1, 0, 3, 4]) = [1, 0]
   \<and> jointPositions (NJOINTS slide_turn_KIN) (setStateFromVector False [1, 0, 3, 4]) \<noteq> [1, 0, 3, 4]
   \<and> STATE_DIM_appropriate slide_turn_KIN False (length [1, 0, 3, 4 :: real])"
  by (simp add: setStateFromVector_def jointPositions_def slide_turn_KIN_def STATE_DIM_appropriate_def)

text \<open>
  C8, amended: the extraction is selected by the template parameter \<open>FB\<close> alone. For a
  floating base and a state in the Euler-XYZ layout, the leading 6 entries decode to the
  base pose and the next \<open>NJOINTS\<close> entries are the joint positions; for a fixed base the
  entire input is the joint state, whose leading \<open>NJOINTS\<close> entries are the joint
  positions, and the base pose is the default-constructed one.
\<close>

theorem setStateFromVector_extraction:
  "(length x = 2 * (6 + njoints) \<longrightarrow>
      basePose (setStateFromVector True x) = RigidBodyPose_EulerXyz (take 6 x)
      \<and> length (take 6 x) = 6
      \<and> jointPositions njoints (setStateFromVector True x) = take njoints (drop 6 x)
      \<and> length (jointPositions njoints (setStateFromVector True x)) = njoints)
   \<and> (length x = 2 * njoints \<longrightarrow>
      joints (setStateFromVector False x) = x
      \<and> basePose (setStateFromVector False x) = RigidBodyPose_default
      \<and> jointPositions njoints (setStateFromVector False x) = take njoints x
      \<and> length (jointPositions njoints (setStateFromVector False x)) = njoints)"
  by (auto simp add: setStateFromVector_def fromStateVectorEulerXyz_def jointPositions_def)

theorem setStateFromVector_extraction_witness:
  "length [1, 2, 3, 4, 5, 6, 7, 8, 9, 10, 11, 12, 13, 14 :: real] = 2 * (6 + 1)
   \<and> basePose (setStateFromVector True [1, 2, 3, 4, 5, 6, 7, 8, 9, 10, 11, 12, 13, 14])
       = RigidBodyPose_EulerXyz [1, 2, 3, 4, 5, 6]
   \<and> jointPositions 1 (setStateFromVector True [1, 2, 3, 4, 5, 6, 7, 8, 9, 10, 11, 12, 13, 14]) = [7]
   \<and> length [5, 7 :: real] = 2 * 1
   \<and> jointPositions 1 (setStateFromVector False [5, 7]) = [5]
   \<and> basePose (setStateFromVector False [5, 7]) = RigidBodyPose_default"
  using setStateFromVector_extraction [of "[1, 2, 3, 4, 5, 6, 7, 8, 9, 10, 11, 12, 13, 14]" 1]
    setStateFromVector_extraction [of "[5, 7]" 1]
  by simp

end
